theory Spec2Isabelle
  imports Main "HOL-Library.AList" "HOL-Library.Multiset" "HOL-Library.Sublist"
begin

section \<open>Strings and scalar values\<close>

text \<open>
  Templates, keys and display values are JavaScript strings, modelled as \<open>string\<close>
  (a list of 8-bit characters, read as the code units below 256). State values are
  \<open>any\<close> in the source. The source only compares a value with a string
  (\<open>!==\<close>, \<open>===\<close>) and prints it (\<open>String(value ?? "")\<close>), so a number or a
  boolean is kept as \<open>JScalar\<close> with its printed form.
\<close>

datatype jsval = JStr string | JScalar string | JNull | JUndefined


text \<open>\<open>s.startsWith(p)\<close> and \<open>s.includes(sub)\<close>.\<close>

fun startsWith :: "string \<Rightarrow> string \<Rightarrow> bool" where
  "startsWith s [] = True"
| "startsWith [] (p # ps) = False"
| "startsWith (c # cs) (p # ps) = (c = p \<and> startsWith cs ps)"

fun str_includes :: "string \<Rightarrow> string \<Rightarrow> bool" where
  "str_includes [] sub = (sub = [])"
| "str_includes (c # cs) sub = (startsWith (c # cs) sub \<or> str_includes cs sub)"

text \<open>The character classes of the regular expressions: \<open>[a-zA-Z0-9_-]\<close>, \<open>\d\<close>, \<open>\s\<close>, \<open>\w\<close>.\<close>

definition char_code :: "char \<Rightarrow> nat" where
  "char_code c = of_char c"

definition is_digit :: "char \<Rightarrow> bool" where
  "is_digit c = (48 \<le> char_code c \<and> char_code c \<le> 57)"

definition is_alpha :: "char \<Rightarrow> bool" where
  "is_alpha c = ((65 \<le> char_code c \<and> char_code c \<le> 90) \<or> (97 \<le> char_code c \<and> char_code c \<le> 122))"

definition is_key_char :: "char \<Rightarrow> bool" where
  "is_key_char c = (is_alpha c \<or> is_digit c \<or> c = CHR ''_'' \<or> c = CHR ''-'')"


definition is_space :: "char \<Rightarrow> bool" where
  "is_space c = (char_code c \<in> {9, 10, 11, 12, 13, 32, 160})"



text \<open>The decimal form of a natural number, as a template literal prints it.\<close>

fun show_nat :: "nat \<Rightarrow> string" where
  "show_nat n =
     (if n < 10 then [''0123456789'' ! n]
      else show_nat (n div 10) @ [''0123456789'' ! (n mod 10)])"

section \<open>Placeholder scanner\<close>

text \<open>
  The regular expression \<open>/(?:{{|%7B%7B)\s*([a-zA-Z0-9_-]+)\s*(?:}}|%7D%7D)/g\<close> of
  the reconciliation effect, of \<open>scanGroups\<close> and of \<open>handleDuplicateVariable\<close>.
  The three character classes are disjoint and neither closing spelling starts with a
  character of the first two, so the greedy match is the only candidate at a position and
  no backtracking is lost. \<open>match_placeholder s\<close> matches at the start of \<open>s\<close> and
  returns the captured key with the rest of the input after the match.
\<close>

definition match_open :: "string \<Rightarrow> string option" where
  "match_open s =
     (if startsWith s ''{{'' then Some (drop 2 s)
      else if startsWith s ''%7B%7B'' then Some (drop 6 s)
      else None)"

definition match_close :: "string \<Rightarrow> string option" where
  "match_close s =
     (if startsWith s ''}}'' then Some (drop 2 s)
      else if startsWith s ''%7D%7D'' then Some (drop 6 s)
      else None)"

definition match_placeholder :: "string \<Rightarrow> (string \<times> string) option" where
  "match_placeholder s =
     (case match_open s of
        None \<Rightarrow> None
      | Some r1 \<Rightarrow>
          (let r2 = dropWhile is_space r1;
               key = takeWhile is_key_char r2;
               r3 = dropWhile is_space (dropWhile is_key_char r2)
           in if key = [] then None
              else (case match_close r3 of
                      None \<Rightarrow> None
                    | Some rest \<Rightarrow> Some (key, rest))))"

lemma length_dropWhile_le: "length (dropWhile P xs) \<le> length xs"
  by (induction xs) auto

lemma startsWith_length: "startsWith s p \<Longrightarrow> length p \<le> length s"
  by (induction s p rule: startsWith.induct) auto

lemma match_placeholder_shorter:
  assumes "match_placeholder s = Some (key, rest)"
  shows "length rest < length s"
proof -
  obtain r1 where r1: "match_open s = Some r1"
    using assms by (auto simp: match_placeholder_def split: option.splits)
  have "startsWith s ''{{'' \<or> startsWith s ''%7B%7B''"
    using r1 by (auto simp: match_open_def split: if_splits)
  then have "2 \<le> length s"
    using startsWith_length[of s "''{{''"] startsWith_length[of s "''%7B%7B''"] by auto
  then have l1: "length r1 < length s"
    using r1 by (auto simp: match_open_def split: if_splits)
  let ?r3 = "dropWhile is_space (dropWhile is_key_char (dropWhile is_space r1))"
  have "match_close ?r3 = Some rest"
    using assms r1 by (auto simp: match_placeholder_def Let_def split: option.splits if_splits)
  then have "length rest \<le> length ?r3"
    by (auto simp: match_close_def split: if_splits)
  moreover have "length ?r3 \<le> length r1"
    using length_dropWhile_le[of is_space "dropWhile is_key_char (dropWhile is_space r1)"]
      length_dropWhile_le[of is_key_char "dropWhile is_space r1"]
      length_dropWhile_le[of is_space r1]
    by linarith
  ultimately show ?thesis using l1 by linarith
qed

text \<open>
  The \<open>while ((match = regex.exec(html)) !== null)\<close> loop: every match, left to
  right, the search resuming after the previous match.
\<close>

function scan_keys :: "string \<Rightarrow> string list" where
  "scan_keys [] = []"
| "scan_keys (c # cs) =
     (case match_placeholder (c # cs) of
        Some (key, rest) \<Rightarrow> key # scan_keys rest
      | None \<Rightarrow> scan_keys cs)"
  by pat_completeness auto
termination
  by (relation "measure length") (auto dest: match_placeholder_shorter)

text \<open>A \<open>Set\<close> iterates in insertion order: the first occurrence of each key.\<close>

fun set_add_all :: "string list \<Rightarrow> string list \<Rightarrow> string list" where
  "set_add_all acc [] = acc"
| "set_add_all acc (k # ks) = set_add_all (if k \<in> set acc then acc else acc @ [k]) ks"

definition foundKeys :: "string \<Rightarrow> string list" where
  "foundKeys html = set_add_all [] (scan_keys html)"

section \<open>Replacing the tokens of one key\<close>










section \<open>Objects used as dictionaries\<close>

text \<open>
  State is a \<open>Record<string, any>\<close>, \<open>newKeysMap\<close> a \<open>Record<string, string>\<close>:
  the list of the object's own properties in the order \<open>Object.keys\<close> reports them
  (array-index keys first, ascending, then the other keys in insertion order). Keys are
  taken to be ordinary dictionary keys: the members that an object inherits from
  \<open>Object.prototype\<close> play no role in the model.
\<close>

type_synonym 'v obj = "(string \<times> 'v) list"

type_synonym state = "jsval obj"

definition obj_keys :: "'v obj \<Rightarrow> string list" where
  "obj_keys s = map fst s"

definition hasOwnProperty :: "'v obj \<Rightarrow> string \<Rightarrow> bool" where
  "hasOwnProperty s k = (k \<in> set (obj_keys s))"

definition obj_delete :: "'v obj \<Rightarrow> string \<Rightarrow> 'v obj" where
  "obj_delete s k = filter (\<lambda>p. fst p \<noteq> k) s"

text \<open>Reading a State property; a missing one reads \<open>undefined\<close>.\<close>

definition obj_get :: "state \<Rightarrow> string \<Rightarrow> jsval" where
  "obj_get s k = (case map_of s k of Some v \<Rightarrow> v | None \<Rightarrow> JUndefined)"

text \<open>An array index is the canonical decimal form of a number below \<open>2^32 - 1\<close>.\<close>

definition digits_value :: "string \<Rightarrow> int" where
  "digits_value s = foldl (\<lambda>a c. 10 * a + (int (char_code c) - 48)) 0 s"

definition array_index :: "string \<Rightarrow> int option" where
  "array_index k =
     (if k \<noteq> [] \<and> list_all is_digit k \<and> (k = ''0'' \<or> hd k \<noteq> CHR ''0'')
         \<and> length k \<le> 10 \<and> digits_value k < 4294967295
      then Some (digits_value k) else None)"

fun index_insert :: "int \<Rightarrow> string \<Rightarrow> 'v \<Rightarrow> 'v obj \<Rightarrow> 'v obj" where
  "index_insert n k v [] = [(k, v)]"
| "index_insert n k v (p # ps) =
     (case array_index (fst p) of
        Some m \<Rightarrow> if m < n then p # index_insert n k v ps else (k, v) # p # ps
      | None \<Rightarrow> (k, v) # p # ps)"

definition obj_set :: "'v obj \<Rightarrow> string \<Rightarrow> 'v \<Rightarrow> 'v obj" where
  "obj_set s k v =
     (if hasOwnProperty s k then AList.update k v s
      else (case array_index k of
              Some n \<Rightarrow> index_insert n k v s
            | None \<Rightarrow> s @ [(k, v)]))"

section \<open>State reconciler\<close>

text \<open>The default value \<open>`[${key}]`\<close>.\<close>

definition default_value :: "string \<Rightarrow> jsval" where
  "default_value k = JStr (''['' @ k @ '']'')"

text \<open>
  The pass is the updater given to \<open>setState\<close> in the debounced effect. Its local
  variables \<open>newState\<close>, \<open>removedKeys\<close> and \<open>hasChanges\<close> are threaded through
  the three steps as a record.
\<close>

record pass =
  newState :: state
  removedKeys :: "string list"
  hasChanges :: bool

definition addedKeys_of :: "string list \<Rightarrow> state \<Rightarrow> string list" where
  "addedKeys_of found prev = filter (\<lambda>k. k \<notin> set (obj_keys prev)) found"

definition removedKeys_of :: "string list \<Rightarrow> state \<Rightarrow> string list" where
  "removedKeys_of found prev = filter (\<lambda>k. k \<notin> set found) (obj_keys prev)"

text \<open>The predicate of \<open>removedKeys.find\<close> for one added key.\<close>

definition is_source :: "pass \<Rightarrow> string \<Rightarrow> string \<Rightarrow> bool" where
  "is_source p newKey oldKey =
     (obj_get (newState p) oldKey \<noteq> default_value oldKey \<and>
      (str_includes newKey oldKey \<or> str_includes oldKey newKey \<or> length (removedKeys p) = 1))"

text \<open>
  The body of \<open>addedKeys.forEach\<close>. The test \<open>if (sourceKey)\<close> is false for the
  empty key, which is a falsy string.
\<close>

definition migrate_key :: "string \<Rightarrow> pass \<Rightarrow> pass" where
  "migrate_key newKey p =
     (case List.find (is_source p newKey) (removedKeys p) of
        None \<Rightarrow> p
      | Some sourceKey \<Rightarrow>
          if sourceKey = [] then p
          else \<lparr> newState = obj_delete (obj_set (newState p) newKey (obj_get (newState p) sourceKey)) sourceKey,
                 removedKeys = remove1 sourceKey (removedKeys p),
                 hasChanges = True \<rparr>)"

definition migrate :: "string list \<Rightarrow> pass \<Rightarrow> pass" where
  "migrate added p =
     (if length added > 0 \<and> length (removedKeys p) > 0 then fold migrate_key added p else p)"

text \<open>Step 2, the body of \<open>foundKeys.forEach\<close>.\<close>

definition add_key :: "string \<Rightarrow> pass \<Rightarrow> pass" where
  "add_key key p =
     (if \<not> hasOwnProperty (newState p) key
      then p\<lparr> newState := obj_set (newState p) key (default_value key), hasChanges := True \<rparr>
      else p)"

text \<open>Step 3, the body of \<open>Object.keys(newState).forEach\<close>.\<close>

definition prune_key :: "string list \<Rightarrow> string \<Rightarrow> pass \<Rightarrow> pass" where
  "prune_key found key p =
     (if key \<notin> set found
      then (if obj_get (newState p) key = default_value key
            then p\<lparr> newState := obj_delete (newState p) key, hasChanges := True \<rparr>
            else p)
      else p)"

definition initial_pass :: "string list \<Rightarrow> state \<Rightarrow> pass" where
  "initial_pass found prev =
     \<lparr> newState = prev, removedKeys = removedKeys_of found prev, hasChanges = False \<rparr>"

definition after_migration :: "string list \<Rightarrow> state \<Rightarrow> pass" where
  "after_migration found prev = migrate (addedKeys_of found prev) (initial_pass found prev)"

definition after_addition :: "string list \<Rightarrow> state \<Rightarrow> pass" where
  "after_addition found prev = fold add_key found (after_migration found prev)"

definition after_pruning :: "string list \<Rightarrow> state \<Rightarrow> pass" where
  "after_pruning found prev =
     (let p = after_addition found prev
      in fold (prune_key found) (obj_keys (newState p)) p)"

definition reconcile_keys :: "string list \<Rightarrow> state \<Rightarrow> state" where
  "reconcile_keys found prev =
     (let p = after_pruning found prev
      in if hasChanges p then newState p else prev)"

text \<open>The whole effect: scan the template, then run the pass on the previous State.\<close>

definition reconcile :: "string \<Rightarrow> state \<Rightarrow> state" where
  "reconcile html prev = reconcile_keys (foundKeys html) prev"

subsection \<open>Rename migration, in the words of the specification\<close>



section \<open>Theme rewriter\<close>












section \<open>Parsed documents\<close>

text \<open>
  Every structural operation starts with \<open>new DOMParser().parseFromString(html,
  "text/html")\<close>. The parser belongs to the platform; the model begins at its result, the
  tree under \<open>doc.body\<close>. An element carries its \<open>tagName\<close> (upper case for the
  elements of HTML), its attributes in order and its child nodes. A node is identified by
  its path: the child indices that lead to it from \<open>doc.body\<close>.
\<close>

datatype node = Text string | Comment string | Element string "(string \<times> string) list" "node list"

type_synonym path = "nat list"



definition is_element :: "node \<Rightarrow> bool" where
  "is_element n = (case n of Element tag attrs kids \<Rightarrow> True | _ \<Rightarrow> False)"





section \<open>Group inference: the repeatable parent\<close>





section \<open>Group inference: scanGroups\<close>










section \<open>Structural mutator: swap\<close>











section \<open>Serialisation\<close>

text \<open>
  \<open>element.innerHTML\<close> read: the fragment serialisation of the platform, for the
  nodes of the model. Text is escaped except inside the raw text elements, attribute
  values are escaped and quoted, a void element has no end tag.
\<close>

definition to_lower :: "string \<Rightarrow> string" where
  "to_lower s = map (\<lambda>c. if 65 \<le> char_code c \<and> char_code c \<le> 90 then char_of (char_code c + 32) else c) s"

definition escape_text :: "string \<Rightarrow> string" where
  "escape_text s =
     concat (map (\<lambda>c. if c = CHR ''&'' then ''&amp;''
                       else if c = CHR ''<'' then ''&lt;''
                       else if c = CHR ''>'' then ''&gt;''
                       else if char_code c = 160 then ''&nbsp;''
                       else [c]) s)"

definition escape_attr :: "string \<Rightarrow> string" where
  "escape_attr s =
     concat (map (\<lambda>c. if c = CHR ''&'' then ''&amp;''
                       else if c = CHR 0x22 then ''&quot;''
                       else if char_code c = 160 then ''&nbsp;''
                       else [c]) s)"

definition void_elements :: "string list" where
  "void_elements = [''area'', ''base'', ''basefont'', ''bgsound'', ''br'', ''col'', ''embed'',
     ''frame'', ''hr'', ''img'', ''input'', ''keygen'', ''link'', ''meta'', ''param'',
     ''source'', ''track'', ''wbr'']"

definition raw_text_elements :: "string list" where
  "raw_text_elements = [''style'', ''script'', ''xmp'', ''iframe'', ''noembed'', ''noframes'',
     ''plaintext'']"

definition serialize_attr :: "string \<times> string \<Rightarrow> string" where
  "serialize_attr a = '' '' @ fst a @ ''='' @ [CHR 0x22] @ escape_attr (snd a) @ [CHR 0x22]"

fun serialize :: "string \<Rightarrow> node \<Rightarrow> string"
  and serialize_list :: "string \<Rightarrow> node list \<Rightarrow> string" where
  "serialize ptag (Text t) = (if to_lower ptag \<in> set raw_text_elements then t else escape_text t)"
| "serialize ptag (Comment t) = ''<!--'' @ t @ ''-->''"
| "serialize ptag (Element tag attrs kids) =
     ''<'' @ to_lower tag @ concat (map serialize_attr attrs) @ ''>''
       @ (if to_lower tag \<in> set void_elements then []
          else serialize_list tag kids @ ''</'' @ to_lower tag @ ''>'')"
| "serialize_list ptag [] = []"
| "serialize_list ptag (k # ks) = serialize ptag k @ serialize_list ptag ks"


section \<open>Preview: the substitution pass\<close>

text \<open>
  \<open>addPaths\<close> gives every element below \<open>doc.body\<close> the attribute
  \<open>data-path\<close>. \<open>pre\<close> is what stands in front of the child's index in its path:
  nothing at the top, the parent's path and a dot below.
\<close>

definition setAttribute :: "(string \<times> string) list \<Rightarrow> string \<Rightarrow> string \<Rightarrow> (string \<times> string) list" where
  "setAttribute attrs name v = AList.update name v attrs"

fun addPaths :: "string \<Rightarrow> node \<Rightarrow> node"
  and addPaths_children :: "string \<Rightarrow> nat \<Rightarrow> node list \<Rightarrow> node list" where
  "addPaths path (Element tag attrs kids) =
     Element tag (setAttribute attrs ''data-path'' path) (addPaths_children (path @ ''.'') 0 kids)"
| "addPaths path (Text t) = Text t"
| "addPaths path (Comment t) = Comment t"
| "addPaths_children pre i [] = []"
| "addPaths_children pre i (k # ks) =
     (if is_element k then addPaths (pre @ show_nat i) k # addPaths_children pre (Suc i) ks
      else k # addPaths_children pre i ks)"



section \<open>Structural mutator: duplicate\<close>









section \<open>Templates made of text and tokens\<close>







section \<open>Verification of the state reconciler\<close>

subsection \<open>The object operations as dictionary updates\<close>

lemma map_of_index_insert:
  "map_of (index_insert n k v s) = (map_of s)(k \<mapsto> v)" if "k \<notin> fst ` set s"
  using that
  by (induction s) (auto simp: fun_eq_iff split: option.splits)

lemma map_of_snoc:
  "map_of (s @ [(k, v)]) = (map_of s)(k \<mapsto> v)" if "k \<notin> fst ` set s"
  using that
  by (induction s) (auto simp: fun_eq_iff)

lemma map_of_obj_set: "map_of (obj_set s k v) = (map_of s)(k \<mapsto> v)"
  by (auto simp: obj_set_def hasOwnProperty_def obj_keys_def update_conv' map_of_index_insert
      map_of_snoc simp del: map_of_append split: option.splits)

lemma map_of_obj_delete: "map_of (obj_delete s k) = (map_of s)(k := None)"
proof -
  have "obj_delete s k = AList.delete k s"
    by (induction s) (auto simp: obj_delete_def AList.delete_eq)
  then show ?thesis by (simp add: delete_conv')
qed

lemma hasOwnProperty_iff: "hasOwnProperty s k \<longleftrightarrow> map_of s k \<noteq> None"
  by (simp add: hasOwnProperty_def obj_keys_def map_of_eq_None_iff)

lemma obj_keys_iff: "k \<in> set (obj_keys s) \<longleftrightarrow> map_of s k \<noteq> None"
  by (simp add: obj_keys_def map_of_eq_None_iff)

lemma obj_get_default_iff: "obj_get s k = default_value k \<longleftrightarrow> map_of s k = Some (default_value k)"
  by (auto simp: obj_get_def default_value_def split: option.splits)

text \<open>hasChanges is monotone, and a pass that reports no change made none.\<close>

lemma migrate_key_cases:
  "migrate_key n p = p \<or>
   (\<exists>src. src \<in> set (removedKeys p) \<and> src \<noteq> [] \<and> is_source p n src \<and>
      List.find (is_source p n) (removedKeys p) = Some src \<and>
      migrate_key n p = \<lparr> newState = obj_delete (obj_set (newState p) n (obj_get (newState p) src)) src,
                 removedKeys = remove1 src (removedKeys p), hasChanges = True \<rparr>)"
proof (cases "List.find (is_source p n) (removedKeys p)")
  case None
  then show ?thesis by (simp add: migrate_key_def)
next
  case (Some src)
  then have "src \<in> set (removedKeys p)" "is_source p n src"
    by (auto simp: find_Some_iff)
  with Some show ?thesis by (cases "src = []") (simp_all add: migrate_key_def)
qed

lemma hasChanges_migrate_key: "hasChanges p \<Longrightarrow> hasChanges (migrate_key n p)"
  using migrate_key_cases[of n p] by auto

lemma unchanged_migrate_key: "\<not> hasChanges (migrate_key n p) \<Longrightarrow> migrate_key n p = p"
  using migrate_key_cases[of n p] by auto

lemma hasChanges_add_key: "hasChanges p \<Longrightarrow> hasChanges (add_key n p)"
  by (simp add: add_key_def)

lemma unchanged_add_key: "\<not> hasChanges (add_key n p) \<Longrightarrow> add_key n p = p"
  by (simp add: add_key_def split: if_splits)

lemma hasChanges_prune_key: "hasChanges p \<Longrightarrow> hasChanges (prune_key f n p)"
  by (simp add: prune_key_def)

lemma unchanged_prune_key: "\<not> hasChanges (prune_key f n p) \<Longrightarrow> prune_key f n p = p"
  by (simp add: prune_key_def split: if_splits)

lemma fold_hasChanges:
  assumes "\<And>x p. hasChanges p \<Longrightarrow> hasChanges (f x p)"
  shows "hasChanges p \<Longrightarrow> hasChanges (fold f xs p)"
  by (induction xs arbitrary: p) (auto simp: assms)

lemma fold_unchanged:
  assumes "\<And>x p. hasChanges p \<Longrightarrow> hasChanges (f x p)"
      and "\<And>x p. \<not> hasChanges (f x p) \<Longrightarrow> f x p = p"
  shows "\<not> hasChanges (fold f xs p) \<Longrightarrow> fold f xs p = p"
proof (induction xs arbitrary: p)
  case Nil
  then show ?case by simp
next
  case (Cons x xs)
  have "\<not> hasChanges (f x p)"
    using Cons.prems fold_hasChanges[of f "f x p" xs, OF assms(1)] by auto
  then have "f x p = p" by (rule assms(2))
  with Cons show ?case by simp
qed

lemma unchanged_after_pruning:
  "\<not> hasChanges (after_pruning found prev) \<Longrightarrow> newState (after_pruning found prev) = prev"
proof -
  assume a: "\<not> hasChanges (after_pruning found prev)"
  let ?pa = "after_addition found prev"
  let ?pm = "after_migration found prev"
  have 1: "after_pruning found prev = ?pa"
    using a unfolding after_pruning_def Let_def
    by (intro fold_unchanged) (auto simp: hasChanges_prune_key unchanged_prune_key)
  then have "\<not> hasChanges ?pa" using a by simp
  then have 2: "?pa = ?pm"
    unfolding after_addition_def
    by (intro fold_unchanged) (auto simp: hasChanges_add_key unchanged_add_key)
  then have "\<not> hasChanges ?pm" using \<open>\<not> hasChanges ?pa\<close> by simp
  then have 3: "?pm = initial_pass found prev"
    unfolding after_migration_def migrate_def
    by (auto intro!: fold_unchanged simp: hasChanges_migrate_key unchanged_migrate_key)
  show ?thesis using 1 2 3 by (simp add: initial_pass_def)
qed

lemma reconcile_keys_map:
  "map_of (reconcile_keys found prev) = map_of (newState (after_pruning found prev))"
  using unchanged_after_pruning[of found prev]
  by (auto simp: reconcile_keys_def Let_def)

lemma map_of_add_key:
  "map_of (newState (add_key n p)) = (\<lambda>k. if k = n \<and> map_of (newState p) k = None then Some (default_value n) else map_of (newState p) k)"
  by (auto simp: add_key_def hasOwnProperty_iff map_of_obj_set fun_eq_iff)

lemma map_of_fold_add_key:
  "map_of (newState (fold add_key ks p)) k =
     (case map_of (newState p) k of
        Some v \<Rightarrow> Some v
      | None \<Rightarrow> if k \<in> set ks then Some (default_value k) else None)"
  by (induction ks arbitrary: p) (auto simp: map_of_add_key split: option.splits)

lemma map_of_prune_key:
  "map_of (newState (prune_key found n p)) =
     (\<lambda>k. if k = n \<and> n \<notin> set found \<and> map_of (newState p) n = Some (default_value n)
          then None else map_of (newState p) k)"
  by (auto simp: prune_key_def obj_get_default_iff map_of_obj_delete fun_eq_iff)

lemma map_of_fold_prune_key:
  "map_of (newState (fold (prune_key found) ks p)) k =
     (if k \<in> set ks \<and> k \<notin> set found \<and> map_of (newState p) k = Some (default_value k)
      then None else map_of (newState p) k)"
  by (induction ks arbitrary: p) (auto simp: map_of_prune_key)

lemma reconcile_keys_lookup:
  "map_of (reconcile_keys found prev) k =
     (let m = map_of (newState (after_migration found prev)) in
      if k \<in> set found
      then (case m k of Some v \<Rightarrow> Some v | None \<Rightarrow> Some (default_value k))
      else (if m k = Some (default_value k) then None else m k))"
  by (auto simp: reconcile_keys_map after_pruning_def after_addition_def Let_def
      map_of_fold_prune_key map_of_fold_add_key obj_keys_iff split: option.splits)

lemma removedKeys_migrate_key: "set (removedKeys (migrate_key n p)) \<subseteq> set (removedKeys p)"
  using migrate_key_cases[of n p] by (auto dest: set_mp[OF set_remove1_subset])

lemma removedKeys_fold_migrate_key: "set (removedKeys (fold migrate_key added p)) \<subseteq> set (removedKeys p)"
proof (induction added arbitrary: p)
  case Nil
  then show ?case by simp
next
  case (Cons n added)
  show ?case using Cons[of "migrate_key n p"] removedKeys_migrate_key[of n p] by auto
qed

lemma migrate_key_frame:
  "k \<noteq> n \<Longrightarrow> k \<notin> set (removedKeys p) \<Longrightarrow>
   map_of (newState (migrate_key n p)) k = map_of (newState p) k"
  using migrate_key_cases[of n p] by (auto simp: map_of_obj_delete map_of_obj_set)

lemma fold_migrate_key_frame:
  "k \<notin> set added \<Longrightarrow> k \<notin> set (removedKeys p) \<Longrightarrow>
   map_of (newState (fold migrate_key added p)) k = map_of (newState p) k"
proof (induction added arbitrary: p)
  case Nil
  then show ?case by simp
next
  case (Cons n added)
  have "k \<notin> set (removedKeys (migrate_key n p))"
    using Cons.prems removedKeys_migrate_key[of n p] by auto
  then show ?case using Cons by (simp add: migrate_key_frame)
qed



lemma migrate_frame:
  "k \<notin> set added \<Longrightarrow> k \<notin> set (removedKeys p) \<Longrightarrow>
   map_of (newState (migrate added p)) k = map_of (newState p) k"
  by (simp add: migrate_def fold_migrate_key_frame)







subsection \<open>The claims about reconciliation\<close>

lemma reconcile_keys_shared:
  assumes "k \<in> set found" "k \<in> set (obj_keys prev)"
  shows "map_of (reconcile_keys found prev) k = map_of prev k"
proof -
  have "k \<notin> set (addedKeys_of found prev)" "k \<notin> set (removedKeys (initial_pass found prev))"
    using assms by (auto simp: addedKeys_of_def removedKeys_of_def initial_pass_def)
  then have "map_of (newState (after_migration found prev)) k = map_of prev k"
    unfolding after_migration_def by (simp add: migrate_frame) (simp add: initial_pass_def)
  moreover have "map_of prev k \<noteq> None" using assms(2) by (simp add: obj_keys_iff)
  ultimately show ?thesis using assms(1) by (auto simp: reconcile_keys_lookup)
qed

text \<open>
  Claim C10. A reconciliation pass never changes the value bound to a key that appears
  both among the scanned keys of the Template and in the prior State: after the pass the
  key is still a property of State and reads the value it read before.
\<close>

theorem reconcile_keeps_shared_values:
  "k \<in> set (foundKeys html) \<Longrightarrow> hasOwnProperty prev k \<Longrightarrow>
   hasOwnProperty (reconcile html prev) k \<and> obj_get (reconcile html prev) k = obj_get prev k"
  using reconcile_keys_shared[of k "foundKeys html" prev]
  by (simp add: reconcile_def obj_get_def hasOwnProperty_iff obj_keys_iff)

theorem reconcile_keeps_shared_values_witness:
  "''title'' \<in> set (foundKeys ''<a href=\"{{link3}}\">{{title}}</a>'') \<and>
   hasOwnProperty [(''link1'', JStr ''custom''), (''title'', JStr ''Welcome'')] ''title'' \<and>
   hasOwnProperty (reconcile ''<a href=\"{{link3}}\">{{title}}</a>''
       [(''link1'', JStr ''custom''), (''title'', JStr ''Welcome'')]) ''title'' \<and>
   obj_get (reconcile ''<a href=\"{{link3}}\">{{title}}</a>''
       [(''link1'', JStr ''custom''), (''title'', JStr ''Welcome'')]) ''title''
     = obj_get [(''link1'', JStr ''custom''), (''title'', JStr ''Welcome'')] ''title''"
proof -
  have a: "''title'' \<in> set (foundKeys ''<a href=\"{{link3}}\">{{title}}</a>'')"
    by code_simp
  have b: "hasOwnProperty [(''link1'', JStr ''custom''), (''title'', JStr ''Welcome'')] ''title''"
    by code_simp
  show ?thesis using reconcile_keeps_shared_values[OF a b] a b by simp
qed







section \<open>Verification of the theme rewriter\<close>






section \<open>Verification of the group inference\<close>






section \<open>Verification of the swap\<close>













subsection \<open>The keys of a document do not depend on the order of children\<close>












subsection \<open>The claims about the swap\<close>







section \<open>Verification of the substitution pass\<close>































section \<open>Verification of the duplication\<close>



















end
